theory Spec2Isabelle
  imports
    Complex_Main
    "HOL-Library.Product_Lexorder"
    "HOL-Library.List_Lexorder"
    "HOL-Library.Char_ord"
    "HOL-Library.Multiset"
begin

section \<open>Data model\<close>

text \<open>
  The dashboard of \<^verbatim>\<open>app.py\<close> reads one sheet of a workbook into a pandas frame, turns
  it from wide to long format, filters the long table and aggregates it.

  A timestamp is a calendar date (year, month, day); tuples are ordered
  lexicographically, which is the order of the dates.  The time of day, which the
  truncation to the month discards, is left out.  A text is the list of its bytes, and
  texts are ordered as Python orders them.  A column header is either a text
  label or a date (\<^verbatim>\<open>isinstance(c, (pd.Timestamp, dt.datetime, dt.date))\<close>).  A cell
  under a date header is blank (NaN), a number or a text; a cell under a text header is a
  text or missing.  Numbers are exact reals: the rounding of float64 is not modelled.
\<close>

type_synonym timestamp = "int \<times> nat \<times> nat"

datatype header = HText string | HDate timestamp

datatype cell = Blank | Num real | Text string

record wide_row =
  ident :: "string \<Rightarrow> string option"
  amount :: "timestamp \<Rightarrow> cell"

record dataframe =
  columns :: "header list"
  rows :: "wide_row list"

text \<open>
  A row of the melted table.  The type of \<open>Value\<close> is a parameter: the melt carries the
  cell as it is, and the coercion that follows makes it a number.
\<close>

record 'v melted_row =
  Client :: "string option"
  Job :: "string option"
  Job_description :: "string option"
  Data_type :: "string option"
  Month :: timestamp
  Value :: 'v

type_synonym long_row = "real melted_row"

text \<open>
  The exceptions that end the script before the filter.  The first two are the
  \<^verbatim>\<open>ValueError\<close> of \<^verbatim>\<open>to_long\<close>: the first carries the missing identifier columns
  and the columns that were found, as its message does.  The third is the
  \<^verbatim>\<open>ValueError\<close> of \<^verbatim>\<open>min(months)\<close> on a sheet without a data row, the fourth the
  exception of the slider when its two bounds are the same month.
\<close>

datatype value_error =
  Missing_required_columns "string list" "header list"
  | No_monthly_columns
  | Min_of_empty_months
  | Slider_bounds_equal

definition ID_COLS :: "string list" where
  "ID_COLS = [''Client'', ''Job'', ''Job description'', ''Data type'']"

section \<open>Loading and shaping\<close>

text \<open>
  \<^verbatim>\<open>load_excel\<close> is \<^verbatim>\<open>pd.read_excel(bio, sheet_name=sheet_name)\<close> with the defaults
  \<^verbatim>\<open>na_filter=True, keep_default_na=True\<close>: a text cell whose content is one of the
  default markers of a missing value is read as missing.  The argument is the sheet as it
  is stored in the workbook, with the headers as \<^verbatim>\<open>read_excel\<close> leaves them (it
  renames a header that is repeated, so they are distinct).  Where \<^verbatim>\<open>read_excel\<close>
  turns a column of texts that all read as numbers into numbers, \<^verbatim>\<open>to_numeric\<close> reads
  the same texts as the same numbers later on.
\<close>

definition STR_NA_VALUES :: "string list" where
  "STR_NA_VALUES =
    [''-1.#IND'', ''1.#QNAN'', ''1.#IND'', ''-1.#QNAN'', ''#N/A N/A'', ''#N/A'', ''N/A'',
     ''n/a'', ''NA'', ''<NA>'', ''#NA'', ''NULL'', ''null'', ''NaN'', ''-NaN'', ''nan'',
     ''-nan'', ''None'', '''']"

fun na_text :: "string option \<Rightarrow> string option" where
  "na_text None = None"
| "na_text (Some s) = (if s \<in> set STR_NA_VALUES then None else Some s)"

fun na_cell :: "cell \<Rightarrow> cell" where
  "na_cell Blank = Blank"
| "na_cell (Num x) = Num x"
| "na_cell (Text s) = (if s \<in> set STR_NA_VALUES then Blank else Text s)"

definition load_excel :: "dataframe \<Rightarrow> dataframe" where
  "load_excel sheet =
     \<lparr>columns = columns sheet,
      rows = map (\<lambda>r. \<lparr>ident = (\<lambda>c. na_text (ident r c)),
                         amount = (\<lambda>t. na_cell (amount r t))\<rparr>) (rows sheet)\<rparr>"

fun date_of :: "header \<Rightarrow> timestamp option" where
  "date_of (HText s) = None"
| "date_of (HDate t) = Some t"

fun is_date :: "header \<Rightarrow> bool" where
  "is_date (HText s) = False"
| "is_date (HDate t) = True"

definition detect_month_cols :: "dataframe \<Rightarrow> timestamp list" where
  "detect_month_cols df = sort (List.map_filter date_of (columns df))"

text \<open>
  \<^verbatim>\<open>value_cols = [c for c in df.columns if isinstance(c, (pd.Timestamp, ...))]\<close>: the
  date headers in the order of the columns.
\<close>

definition value_cols :: "dataframe \<Rightarrow> timestamp list" where
  "value_cols df = List.map_filter date_of (columns df)"

text \<open>
  \<^verbatim>\<open>df.melt(id_vars=ID_COLS, value_vars=value_cols, var_name="Month", value_name="Value")\<close>:
  pandas stacks the value columns one below the other, so the result runs through the
  value columns in their order and, for each of them, through the rows of the frame.
\<close>

definition melt :: "dataframe \<Rightarrow> timestamp list \<Rightarrow> cell melted_row list" where
  "melt df value_vars =
     concat (map (\<lambda>t. map (\<lambda>r.
        \<lparr>Client = ident r ''Client'', Job = ident r ''Job'',
         Job_description = ident r ''Job description'', Data_type = ident r ''Data type'',
         Month = t, Value = amount r t\<rparr>) (rows df)) value_vars)"

text \<open>\<^verbatim>\<open>.dt.to_period("M").dt.to_timestamp()\<close>: the first day of the month.\<close>

fun to_month :: "timestamp \<Rightarrow> timestamp" where
  "to_month (y, m, d) = (y, m, 1)"

text \<open>
  \<^verbatim>\<open>pd.to_numeric(..., errors="coerce")\<close> gives NaN (here \<open>None\<close>) for a blank cell and
  for a text that does not read as a number; \<open>parse\<close> is the reading of a text as a
  number, a parameter of the model.  \<^verbatim>\<open>.fillna(0.0)\<close> replaces NaN.
\<close>

fun to_numeric :: "(string \<Rightarrow> real option) \<Rightarrow> cell \<Rightarrow> real option" where
  "to_numeric parse Blank = None"
| "to_numeric parse (Num x) = Some x"
| "to_numeric parse (Text s) = parse s"

fun fillna :: "real \<Rightarrow> real option \<Rightarrow> real" where
  "fillna d None = d"
| "fillna d (Some x) = x"

definition coerce_row :: "(string \<Rightarrow> real option) \<Rightarrow> cell melted_row \<Rightarrow> long_row" where
  "coerce_row parse r =
     \<lparr>Client = Client r, Job = Job r, Job_description = Job_description r,
      Data_type = Data_type r, Month = to_month (Month r),
      Value = fillna 0 (to_numeric parse (Value r))\<rparr>"

text \<open>
  The long row of the wide row \<open>r\<close> under the date header \<open>t\<close>: shorthand for the
  statements below.
\<close>

abbreviation long_of :: "(string \<Rightarrow> real option) \<Rightarrow> wide_row \<Rightarrow> timestamp \<Rightarrow> long_row" where
  "long_of parse r t \<equiv>
     \<lparr>Client = ident r ''Client'', Job = ident r ''Job'',
      Job_description = ident r ''Job description'', Data_type = ident r ''Data type'',
      Month = to_month t, Value = fillna 0 (to_numeric parse (amount r t))\<rparr>"

definition to_long ::
  "(string \<Rightarrow> real option) \<Rightarrow> dataframe \<Rightarrow> value_error + (long_row list \<times> timestamp list)" where
  "to_long parse df_wide =
     (let missing = filter (\<lambda>c. HText c \<notin> set (columns df_wide)) ID_COLS in
      if missing \<noteq> [] then Inl (Missing_required_columns missing (columns df_wide))
      else
        let month_cols = detect_month_cols df_wide in
        if month_cols = [] then Inl No_monthly_columns
        else
          let df_long = map (coerce_row parse) (melt df_wide (value_cols df_wide));
              months = sort (remdups (map Month df_long))
          in Inr (df_long, months))"

text \<open>
  The order of the rows as the specification words it, for comparison with the code: row
  by row of the wide table, and within a row the date columns in their order.
\<close>

definition row_major_long :: "(string \<Rightarrow> real option) \<Rightarrow> dataframe \<Rightarrow> long_row list" where
  "row_major_long parse df =
     concat (map (\<lambda>r. map (\<lambda>t. long_of parse r t) (value_cols df)) (rows df))"

text \<open>The table of a result of \<open>to_long\<close>: none when it raised.\<close>

fun long_table :: "value_error + (long_row list \<times> timestamp list) \<Rightarrow> long_row list option" where
  "long_table (Inl e) = None"
| "long_table (Inr (df_long, months)) = Some df_long"

section \<open>Filters\<close>

text \<open>
  \<^verbatim>\<open>sorted(df_long[col].dropna().astype(str).unique().tolist())\<close>: the options of a
  multiselect.  The same shape (missing keys dropped, distinct keys in ascending order) is
  the list of group keys of \<^verbatim>\<open>groupby(col)\<close>.
\<close>

definition sorted_unique :: "('r \<Rightarrow> 'k::linorder option) \<Rightarrow> 'r list \<Rightarrow> 'k list" where
  "sorted_unique col df = sort (remdups (List.map_filter col df))"

text \<open>
  \<^verbatim>\<open>multiselect_all\<close>: \<open>selected\<close> is what the widget returns, a choice among the
  options (all of them by default); \<^verbatim>\<open>selected or options\<close>.
\<close>

definition multiselect_all :: "string list \<Rightarrow> string list \<Rightarrow> string list" where
  "multiselect_all options selected = (if selected = [] then options else selected)"

text \<open>\<^verbatim>\<open>.astype(str)\<close> on a column of texts with missing entries (NaN).\<close>

fun astype_str :: "string option \<Rightarrow> string" where
  "astype_str None = ''nan''"
| "astype_str (Some s) = s"

definition mask ::
  "timestamp \<Rightarrow> timestamp \<Rightarrow> string list \<Rightarrow> string list \<Rightarrow> string list \<Rightarrow> long_row \<Rightarrow> bool" where
  "mask start_m end_m selected_types selected_clients selected_services r =
     (Month r \<ge> start_m \<and> Month r \<le> end_m
      \<and> astype_str (Data_type r) \<in> set selected_types
      \<and> astype_str (Client r) \<in> set selected_clients
      \<and> astype_str (Job_description r) \<in> set selected_services)"

text \<open>What the widgets of the sidebar return: the month range and the three choices.\<close>

record sidebar =
  start_m :: timestamp
  end_m :: timestamp
  picked_types :: "string list"
  picked_clients :: "string list"
  picked_services :: "string list"

definition dff :: "long_row list \<Rightarrow> sidebar \<Rightarrow> long_row list" where
  "dff df_long ui =
     (let data_types = sorted_unique Data_type df_long;
          clients = sorted_unique Client df_long;
          services = sorted_unique Job_description df_long;
          selected_types = multiselect_all data_types (picked_types ui);
          selected_clients = multiselect_all clients (picked_clients ui);
          selected_services = multiselect_all services (picked_services ui)
      in filter (mask (start_m ui) (end_m ui) selected_types selected_clients selected_services)
           df_long)"

text \<open>
  The filter as the specification words it, for comparison with the code: a conjunction
  of the month range and three sets of allowed values, where an empty set means no
  restriction.
\<close>

definition spec_filter ::
  "timestamp \<Rightarrow> timestamp \<Rightarrow> string list \<Rightarrow> string list \<Rightarrow> string list \<Rightarrow>
   long_row list \<Rightarrow> long_row list" where
  "spec_filter lo hi types clients services df_long =
     filter (\<lambda>r. lo \<le> Month r \<and> Month r \<le> hi
        \<and> (types = [] \<or> astype_str (Data_type r) \<in> set types)
        \<and> (clients = [] \<or> astype_str (Client r) \<in> set clients)
        \<and> (services = [] \<or> astype_str (Job_description r) \<in> set services)) df_long"

text \<open>
  The script from the sheet to the filtered table: an exception of \<open>to_long\<close> ends the
  run, so nothing is filtered or aggregated after it.  So do \<^verbatim>\<open>min(months)\<close> when there
  is no month (a sheet without a data row) and the slider when the first and the last
  month are the same; \<open>months\<close> is in ascending order, so these are its head and its
  last element.
\<close>

definition filtered_table ::
  "(string \<Rightarrow> real option) \<Rightarrow> dataframe \<Rightarrow> sidebar \<Rightarrow> value_error + long_row list" where
  "filtered_table parse sheet ui =
     (case to_long parse (load_excel sheet) of
        Inl e \<Rightarrow> Inl e
      | Inr (df_long, months) \<Rightarrow>
          if months = [] then Inl Min_of_empty_months
          else if hd months = last months then Inl Slider_bounds_equal
          else Inr (dff df_long ui))"

section \<open>Aggregation\<close>

subsection \<open>The sums of pandas\<close>

text \<open>
  The column \<open>Value\<close> is of type float64, or of type int64 when every cell that pandas
  read is a whole number; the type is a datum of the frame, and an argument of the
  aggregations below.

  A float64 is the real number it stands for.  The sum of two of them is the exact sum
  rounded to the nearest number with 53 binary digits, a tie going to the even one
  (\<open>round_double\<close>; \<open>exponent x\<close> is the integer part of the binary logarithm of
  \<open>\<bar>x\<bar>\<close>, and below the exponent -1022 the spacing stays that of the subnormal
  numbers).  Infinities and NaN, which arise only beyond the range of float64, are not
  modelled.
\<close>

fun bit_length :: "nat \<Rightarrow> nat" where
  "bit_length n = (if n = 0 then 0 else Suc (bit_length (n div 2)))"

declare bit_length.simps [simp del]

definition pow2 :: "int \<Rightarrow> real" where
  "pow2 e = (if 0 \<le> e then 2 ^ nat e else 1 / 2 ^ nat (- e))"

definition exponent :: "real \<Rightarrow> int" where
  "exponent x =
     (if 1 \<le> \<bar>x\<bar> then int (bit_length (nat \<lfloor>\<bar>x\<bar>\<rfloor>)) - 1
      else - int (bit_length (nat (\<lceil>1 / \<bar>x\<bar>\<rceil> - 1))))"

definition round_half_even :: "real \<Rightarrow> int" where
  "round_half_even r =
     (let f = \<lfloor>r\<rfloor> in
      if r - of_int f < 1 / 2 then f
      else if 1 / 2 < r - of_int f then f + 1
      else if even f then f else f + 1)"

definition round_double :: "real \<Rightarrow> real" where
  "round_double x =
     (if x = 0 then 0
      else let u = pow2 (max (exponent x) (- 1022) - 52)
           in of_int (round_half_even (x / u)) * u)"

definition fl_add :: "real \<Rightarrow> real \<Rightarrow> real" where
  "fl_add x y = round_double (x + y)"

definition fl_sub :: "real \<Rightarrow> real \<Rightarrow> real" where
  "fl_sub x y = round_double (x - y)"

text \<open>
  \<^verbatim>\<open>Series.sum()\<close> of a float64 column is the sum of numpy, which adds in pairs: fewer
  than 8 numbers from left to right; up to 128 numbers with eight running sums, one for
  each position modulo 8, that are added in pairs at the end, followed by the numbers
  that are left over; more than 128 numbers as the sum of the sums of two parts, the first
  a multiple of 8 long.
\<close>

function pairwise_sum :: "real list \<Rightarrow> real" where
  "pairwise_sum a =
     (let n = length a in
      if n < 8 then foldl fl_add 0 a
      else if n \<le> 128 then
        (let m = n - n mod 8;
             r = (\<lambda>j. foldl fl_add (a ! j) (map (\<lambda>k. a ! (8 * k + j)) [1 ..< m div 8]));
             res = fl_add (fl_add (fl_add (r 0) (r 1)) (fl_add (r 2) (r 3)))
                          (fl_add (fl_add (r 4) (r 5)) (fl_add (r 6) (r 7)))
         in foldl fl_add res (drop m a))
      else
        (let n2 = n div 2 - (n div 2) mod 8
         in fl_add (pairwise_sum (take n2 a)) (pairwise_sum (drop n2 a))))"
  by pat_completeness auto
termination
  by (relation "measure length") auto

declare pairwise_sum.simps [simp del]

text \<open>
  The sum of a group in \<^verbatim>\<open>groupby(...).sum()\<close> is the compensated sum of pandas
  (\<^verbatim>\<open>y = val - compensation; t = sumx + y; compensation = t - sumx - y; sumx = t\<close>).
\<close>

fun kahan_step :: "real \<times> real \<Rightarrow> real \<Rightarrow> real \<times> real" where
  "kahan_step (sumx, compensation) val =
     (let y = fl_sub val compensation;
          t = fl_add sumx y
      in (t, fl_sub (fl_sub t sumx) y))"

definition kahan_sum :: "real list \<Rightarrow> real" where
  "kahan_sum xs = fst (foldl kahan_step (0, 0) xs)"

text \<open>A sum of int64 is exact, and wraps around beyond 64 bits.\<close>

definition wrap64 :: "int \<Rightarrow> int" where
  "wrap64 i = (i + 2 ^ 63) mod 2 ^ 64 - 2 ^ 63"

definition int64_sum :: "real list \<Rightarrow> real" where
  "int64_sum xs = of_int (wrap64 (sum_list (map floor xs)))"

datatype dtype = Int64 | Float64

fun series_sum :: "dtype \<Rightarrow> real list \<Rightarrow> real" where
  "series_sum Int64 xs = int64_sum xs"
| "series_sum Float64 xs = pairwise_sum xs"

fun group_sum :: "dtype \<Rightarrow> real list \<Rightarrow> real" where
  "group_sum Int64 xs = int64_sum xs"
| "group_sum Float64 xs = kahan_sum xs"

subsection \<open>Metrics, groups and rankings\<close>

text \<open>
  \<^verbatim>\<open>revenue_total = float(dff["Value"].sum())\<close>: \<^verbatim>\<open>float\<close> leaves a float64 as it is and
  gives the float64 nearest to an int64.
\<close>

definition revenue_total :: "dtype \<Rightarrow> long_row list \<Rightarrow> real" where
  "revenue_total dt df = round_double (series_sum dt (map Value df))"

text \<open>
  \<^verbatim>\<open>groupby(col, as_index=False)\<close>: one group for each distinct key that is not missing,
  the groups in ascending order of the key.
\<close>

definition group_rows :: "('r \<Rightarrow> 'k option) \<Rightarrow> 'r list \<Rightarrow> 'k \<Rightarrow> 'r list" where
  "group_rows col df k = filter (\<lambda>r. col r = Some k) df"

definition groupby_sum ::
  "dtype \<Rightarrow> (long_row \<Rightarrow> 'k::linorder option) \<Rightarrow> long_row list \<Rightarrow> ('k \<times> real) list" where
  "groupby_sum dt col df =
     map (\<lambda>k. (k, group_sum dt (map Value (group_rows col df k)))) (sorted_unique col df)"

text \<open>The frame \<open>m\<close> of \<^verbatim>\<open>line_revenue_by_month\<close>.\<close>

definition revenue_by_month :: "dtype \<Rightarrow> long_row list \<Rightarrow> (timestamp \<times> real) list" where
  "revenue_by_month dt df = groupby_sum dt (\<lambda>r. Some (Month r)) df"

text \<open>
  \<^verbatim>\<open>.sort_values(["Usage", "Revenue"], ascending=False)\<close> sorts by two columns: pandas
  sorts the rows by their pairs of keys, in non-increasing lexicographic order, and keeps
  rows of equal keys in their order.  \<open>sort_desc\<close> is that sort, by insertion.
\<close>

fun insort_desc :: "('a \<Rightarrow> 'k::linorder) \<Rightarrow> 'a \<Rightarrow> 'a list \<Rightarrow> 'a list" where
  "insort_desc f x [] = [x]"
| "insort_desc f x (y # ys) = (if f y \<le> f x then x # y # ys else y # insort_desc f x ys)"

definition sort_desc :: "('a \<Rightarrow> 'k::linorder) \<Rightarrow> 'a list \<Rightarrow> 'a list" where
  "sort_desc f xs = foldr (insort_desc f) xs []"

text \<open>
  \<^verbatim>\<open>top_services_usage\<close>: the rows of positive value, or all rows when there is none;
  \<^verbatim>\<open>nunique\<close> counts the distinct values that are not missing.  A row of the grouped
  frame is (Job description, Usage, Revenue).  \<open>positive_or_all\<close> is also the frame
  \<open>pos\<close> of the Services tab.
\<close>

definition positive_or_all :: "long_row list \<Rightarrow> long_row list" where
  "positive_or_all df =
     (let tmp = filter (\<lambda>r. Value r > 0) df in if tmp = [] then df else tmp)"

definition nunique :: "('r \<Rightarrow> 'k option) \<Rightarrow> 'r list \<Rightarrow> nat" where
  "nunique col df = length (remdups (List.map_filter col df))"

definition service_usage :: "dtype \<Rightarrow> long_row list \<Rightarrow> (string \<times> nat \<times> real) list" where
  "service_usage dt tmp =
     map (\<lambda>k. (k, nunique Job (group_rows Job_description tmp k),
               group_sum dt (map Value (group_rows Job_description tmp k))))
       (sorted_unique Job_description tmp)"

definition top_services_usage ::
  "dtype \<Rightarrow> long_row list \<Rightarrow> nat \<Rightarrow> (string \<times> nat \<times> real) list" where
  "top_services_usage dt df n = take n (sort_desc snd (service_usage dt (positive_or_all df)))"

section \<open>Export\<close>

text \<open>
  \<^verbatim>\<open>dff.to_csv(index=False).encode("utf-8-sig")\<close>.  A text is the list of its bytes in
  UTF-8, so the encoding adds the byte order mark and nothing else.  pandas writes with
  the \<^verbatim>\<open>csv\<close> module: comma as delimiter, the double quote as quote character, minimal
  quoting (a field is quoted when it holds the delimiter, the quote character, a line
  feed or a carriage return, and a quote character in it is doubled), and
  \<^verbatim>\<open>os.linesep\<close> as line terminator, here the line feed of POSIX.  A missing field is
  written as the empty text, a month as \<^verbatim>\<open>%Y-%m-%d\<close>, and a value as Python writes a
  float: \<open>repr\<close>, a parameter of the model.
\<close>

definition COMMA :: char where "COMMA = CHR 0x2C"
definition DQUOTE :: char where "DQUOTE = CHR 0x22"
definition LF :: char where "LF = CHR 0x0A"
definition CR :: char where "CR = CHR 0x0D"

definition BOM :: string where
  "BOM = [CHR 0xEF, CHR 0xBB, CHR 0xBF]"

definition needs_quote :: "string \<Rightarrow> bool" where
  "needs_quote s = (COMMA \<in> set s \<or> DQUOTE \<in> set s \<or> LF \<in> set s \<or> CR \<in> set s)"

fun double_quotes :: "string \<Rightarrow> string" where
  "double_quotes [] = []"
| "double_quotes (c # cs) =
     (if c = DQUOTE then DQUOTE # DQUOTE # double_quotes cs else c # double_quotes cs)"

definition quote_field :: "string \<Rightarrow> string" where
  "quote_field s = (if needs_quote s then DQUOTE # double_quotes s @ [DQUOTE] else s)"

fun join_fields :: "string list \<Rightarrow> string" where
  "join_fields [] = []"
| "join_fields [f] = f"
| "join_fields (f # g # fs) = f @ COMMA # join_fields (g # fs)"

definition csv_line :: "string list \<Rightarrow> string" where
  "csv_line fs = join_fields (map quote_field fs) @ [LF]"

definition digit :: "nat \<Rightarrow> char" where
  "digit n = ''0123456789'' ! (n mod 10)"

fun strftime_ymd :: "timestamp \<Rightarrow> string" where
  "strftime_ymd (y, m, d) =
     [digit (nat y div 1000), digit (nat y div 100), digit (nat y div 10), digit (nat y)]
     @ ''-'' @ [digit (m div 10), digit m] @ ''-'' @ [digit (d div 10), digit d]"

fun na_rep :: "string option \<Rightarrow> string" where
  "na_rep None = []"
| "na_rep (Some s) = s"

definition csv_header :: "string list" where
  "csv_header = [''Client'', ''Job'', ''Job description'', ''Data type'', ''Month'', ''Value'']"

definition row_fields :: "(real \<Rightarrow> string) \<Rightarrow> long_row \<Rightarrow> string list" where
  "row_fields repr r =
     [na_rep (Client r), na_rep (Job r), na_rep (Job_description r), na_rep (Data_type r),
      strftime_ymd (Month r), repr (Value r)]"

definition to_csv :: "(real \<Rightarrow> string) \<Rightarrow> long_row list \<Rightarrow> string" where
  "to_csv repr df = csv_line csv_header @ concat (map (\<lambda>r. csv_line (row_fields repr r)) df)"

definition export_csv :: "(real \<Rightarrow> string) \<Rightarrow> long_row list \<Rightarrow> string" where
  "export_csv repr df = BOM @ to_csv repr df"

text \<open>
  Two readings of the exported text, for the statement of what it holds.  The number of
  its lines is the number of its line terminators.  Its records are what a reader of
  comma-separated text finds: fields end at a comma, records at a line feed, and a field
  that opens with a quote runs to its closing quote, a doubled quote standing for one.
  The reader keeps the field and the record it is reading, both reversed.
\<close>

definition line_count :: "string \<Rightarrow> nat" where
  "line_count s = length (filter (\<lambda>c. c = LF) s)"

datatype reader_state = Plain | Quoted | Closing

fun read_csv :: "reader_state \<Rightarrow> string \<Rightarrow> string list \<Rightarrow> string \<Rightarrow> string list list" where
  "read_csv st f r [] = (if st = Plain \<and> f = [] \<and> r = [] then [] else [rev (rev f # r)])"
| "read_csv Plain f r (c # cs) =
     (if c = COMMA then read_csv Plain [] (rev f # r) cs
      else if c = LF then rev (rev f # r) # read_csv Plain [] [] cs
      else if c = DQUOTE \<and> f = [] then read_csv Quoted [] r cs
      else read_csv Plain (c # f) r cs)"
| "read_csv Quoted f r (c # cs) =
     (if c = DQUOTE then read_csv Closing f r cs else read_csv Quoted (c # f) r cs)"
| "read_csv Closing f r (c # cs) =
     (if c = DQUOTE then read_csv Quoted (DQUOTE # f) r cs
      else if c = COMMA then read_csv Plain [] (rev f # r) cs
      else if c = LF then rev (rev f # r) # read_csv Plain [] [] cs
      else read_csv Plain (c # f) r cs)"

definition csv_records :: "string \<Rightarrow> string list list" where
  "csv_records s = read_csv Plain [] [] s"

section \<open>Example data\<close>

text \<open>
  A sheet with two rows and two date columns, after the scenario of the specification;
  the texts \<open>''abc''\<close> and \<open>''12.5''\<close> stand under date columns.
\<close>

definition mk_row :: "(string \<times> string) list \<Rightarrow> (timestamp \<times> cell) list \<Rightarrow> wide_row" where
  "mk_row ids cells =
     \<lparr>ident = map_of ids,
      amount = (\<lambda>t. case map_of cells t of None \<Rightarrow> Blank | Some c \<Rightarrow> c)\<rparr>"

definition ex_parse :: "string \<Rightarrow> real option" where
  "ex_parse s = (if s = ''12.5'' then Some 12.5 else None)"

definition ex_row1 :: wide_row where
  "ex_row1 = mk_row
     [(''Client'', ''A''), (''Job'', ''J1''), (''Job description'', ''Svc1''), (''Data type'', ''T1'')]
     [((2024, 1, 15), Num 100), ((2024, 2, 1), Num 50)]"

definition ex_row2 :: wide_row where
  "ex_row2 = mk_row
     [(''Client'', ''B''), (''Job'', ''J2''), (''Job description'', ''Svc2''), (''Data type'', ''T1'')]
     [((2024, 1, 15), Text ''abc''), ((2024, 2, 1), Num (- 8))]"

definition ex_wide :: dataframe where
  "ex_wide =
     \<lparr>columns = [HText ''Client'', HText ''Job'', HText ''Job description'', HText ''Data type'',
                 HDate (2024, 1, 15), HDate (2024, 2, 1)],
      rows = [ex_row1, ex_row2]\<rparr>"

definition lrow ::
  "string option \<Rightarrow> string option \<Rightarrow> string option \<Rightarrow> string option \<Rightarrow> timestamp \<Rightarrow> real \<Rightarrow> long_row" where
  "lrow c j s d m v =
     \<lparr>Client = c, Job = j, Job_description = s, Data_type = d, Month = m, Value = v\<rparr>"

definition ex_long :: "long_row list" where
  "ex_long =
     [lrow (Some ''A'') (Some ''J1'') (Some ''Svc1'') (Some ''T1'') (2024, 1, 1) 100,
      lrow (Some ''B'') (Some ''J2'') (Some ''Svc2'') (Some ''T1'') (2024, 1, 1) 0,
      lrow (Some ''A'') (Some ''J1'') (Some ''Svc1'') (Some ''T1'') (2024, 2, 1) 50,
      lrow (Some ''B'') (Some ''J2'') (Some ''Svc2'') (Some ''T1'') (2024, 2, 1) (- 8)]"

text \<open>The same frame without the column \<open>Job description\<close>, and one without a date header.\<close>

definition ex_no_description :: dataframe where
  "ex_no_description =
     \<lparr>columns = [HText ''Client'', HText ''Job'', HText ''Data type'', HDate (2024, 1, 15)],
      rows = [ex_row1]\<rparr>"

definition ex_no_dates :: dataframe where
  "ex_no_dates =
     \<lparr>columns = [HText ''Client'', HText ''Job'', HText ''Job description'', HText ''Data type'',
                 HText ''2024-01''],
      rows = [ex_row1]\<rparr>"

text \<open>A state of the sidebar: the whole range of months, nothing cleared or picked.\<close>

definition ex_ui :: sidebar where
  "ex_ui = \<lparr>start_m = (2024, 1, 1), end_m = (2024, 2, 1),
            picked_types = [], picked_clients = [], picked_services = []\<rparr>"

text \<open>
  A sheet of two months whose first row has an empty \<open>Client\<close> cell, whose second row
  has the text \<open>nan\<close> as its \<open>Data type\<close> and whose third row is complete; the long
  table read from it.
\<close>

definition ex_blank_sheet :: dataframe where
  "ex_blank_sheet =
     \<lparr>columns = [HText ''Client'', HText ''Job'', HText ''Job description'', HText ''Data type'',
                 HDate (2024, 1, 15), HDate (2024, 2, 1)],
      rows = [mk_row [(''Job'', ''J1''), (''Job description'', ''Svc1''), (''Data type'', ''T1'')]
                [((2024, 1, 15), Num 100), ((2024, 2, 1), Num 50)],
              mk_row [(''Client'', ''B''), (''Job'', ''J2''), (''Job description'', ''Svc2''),
                      (''Data type'', ''nan'')]
                [((2024, 1, 15), Num 7), ((2024, 2, 1), Num 8)],
              mk_row [(''Client'', ''C''), (''Job'', ''J3''), (''Job description'', ''Svc3''),
                      (''Data type'', ''T1'')]
                [((2024, 1, 15), Num 1), ((2024, 2, 1), Num 2)]]\<rparr>"

definition ex_blank_long :: "long_row list" where
  "ex_blank_long =
     [lrow None (Some ''J1'') (Some ''Svc1'') (Some ''T1'') (2024, 1, 1) 100,
      lrow (Some ''B'') (Some ''J2'') (Some ''Svc2'') None (2024, 1, 1) 7,
      lrow (Some ''C'') (Some ''J3'') (Some ''Svc3'') (Some ''T1'') (2024, 1, 1) 1,
      lrow None (Some ''J1'') (Some ''Svc1'') (Some ''T1'') (2024, 2, 1) 50,
      lrow (Some ''B'') (Some ''J2'') (Some ''Svc2'') None (2024, 2, 1) 8,
      lrow (Some ''C'') (Some ''J3'') (Some ''Svc3'') (Some ''T1'') (2024, 2, 1) 2]"

definition ex_complete_long :: "long_row list" where
  "ex_complete_long =
     [lrow (Some ''C'') (Some ''J3'') (Some ''Svc3'') (Some ''T1'') (2024, 1, 1) 1,
      lrow (Some ''C'') (Some ''J3'') (Some ''Svc3'') (Some ''T1'') (2024, 2, 1) 2]"

text \<open>
  A table whose values are all 0 (two services, the second with two jobs), a table whose
  rows have no service, and the long table of a sheet of two rows and two months with the
  amounts 0.5 and 0.5 in January and 0.5 and \<open>2 ^ 53\<close> in February.
\<close>

definition ex_zero :: "long_row list" where
  "ex_zero =
     [lrow (Some ''A'') (Some ''J1'') (Some ''Svc1'') (Some ''T1'') (2024, 1, 1) 0,
      lrow (Some ''B'') (Some ''J2'') (Some ''Svc2'') (Some ''T1'') (2024, 1, 1) 0,
      lrow (Some ''B'') (Some ''J3'') (Some ''Svc2'') (Some ''T1'') (2024, 1, 1) 0]"

definition ex_no_service :: "long_row list" where
  "ex_no_service =
     [lrow (Some ''A'') (Some ''J1'') None (Some ''T1'') (2024, 1, 1) 10,
      lrow (Some ''B'') (Some ''J2'') None (Some ''T1'') (2024, 1, 1) 20]"

definition ex_float :: "long_row list" where
  "ex_float =
     [lrow (Some ''A'') (Some ''J1'') (Some ''Svc1'') (Some ''T1'') (2024, 1, 1) (1 / 2),
      lrow (Some ''B'') (Some ''J2'') (Some ''Svc2'') (Some ''T1'') (2024, 1, 1) (1 / 2),
      lrow (Some ''A'') (Some ''J1'') (Some ''Svc1'') (Some ''T1'') (2024, 2, 1) (1 / 2),
      lrow (Some ''B'') (Some ''J2'') (Some ''Svc2'') (Some ''T1'') (2024, 2, 1) (2 ^ 53)]"

text \<open>
  How Python writes the values of the examples, and a table of one row whose service holds
  a line break.
\<close>

definition ex_repr :: "real \<Rightarrow> string" where
  "ex_repr v = (if v = 100 then ''100.0'' else if v = 50 then ''50.0''
                else if v = - 8 then ''-8.0'' else ''0.0'')"

definition ex_two_lines :: "long_row list" where
  "ex_two_lines =
     [lrow (Some ''A, Ltd'') (Some ''J1'') (Some (''Svc'' @ [LF] @ ''1'')) (Some ''T1'')
        (2024, 1, 1) 100]"

section \<open>Properties of the reshape\<close>

lemma set_date_cols: "set (List.map_filter date_of cols) = {t. HDate t \<in> set cols}"
proof (induction cols)
  case Nil
  then show ?case by simp
next
  case (Cons h cols)
  then show ?case by (cases h) auto
qed



lemma length_concat_uniform:
  "length (concat (map (\<lambda>t. map (f t) rs) ts)) = length ts * length rs"
  by (induction ts) simp_all

lemma nth_concat_uniform:
  "i < length ts \<Longrightarrow> j < length rs \<Longrightarrow>
   concat (map (\<lambda>t. map (f t) rs) ts) ! (i * length rs + j) = f (ts ! i) (rs ! j)"
proof (induction ts arbitrary: i)
  case Nil
  then show ?case by simp
next
  case (Cons t ts)
  show ?case
  proof (cases i)
    case 0
    with Cons.prems show ?thesis by (simp add: nth_append)
  next
    case (Suc k)
    with Cons.prems have "k < length ts" by simp
    from Cons.IH [OF this Cons.prems(2)] Suc Cons.prems(2) show ?thesis
      by (simp add: nth_append add.assoc)
  qed
qed

lemma index_bound: "i < (m::nat) \<Longrightarrow> j < n \<Longrightarrow> i * n + j < m * n"
proof -
  assume "i < m" and "j < n"
  then have "i * n + j < Suc i * n" by simp
  also from \<open>i < m\<close> have "Suc i * n \<le> m * n" by (intro mult_le_mono1) simp
  finally show ?thesis .
qed

lemma to_long_Inr:
  assumes "to_long parse df = Inr (df_long, months)"
  shows "df_long = map (coerce_row parse) (melt df (value_cols df))"
    and "\<forall>c \<in> set ID_COLS. HText c \<in> set (columns df)"
    and "value_cols df \<noteq> []"
    and "months = sort (remdups (map Month df_long))"
  using assms
  by (auto simp: to_long_def Let_def detect_month_cols_def value_cols_def filter_empty_conv split: if_splits)

lemma length_to_long:
  assumes "to_long parse df = Inr (df_long, months)"
  shows "length df_long = length (value_cols df) * length (rows df)"
  using to_long_Inr(1) [OF assms] by (simp add: melt_def length_concat_uniform)

lemma nth_to_long:
  assumes "to_long parse df = Inr (df_long, months)"
    and "i < length (value_cols df)" and "j < length (rows df)"
  shows "df_long ! (i * length (rows df) + j) = long_of parse (rows df ! j) (value_cols df ! i)"
proof -
  have lt: "i * length (rows df) + j < length (melt df (value_cols df))"
    by (simp add: melt_def length_concat_uniform index_bound [OF assms(2,3)])
  show ?thesis
    using to_long_Inr(1) [OF assms(1)] lt
    by (simp add: melt_def nth_concat_uniform [OF assms(2,3)] coerce_row_def)
qed

lemma ex_to_long: "to_long ex_parse ex_wide = Inr (ex_long, [(2024, 1, 1), (2024, 2, 1)])"
  by (simp add: to_long_def ex_wide_def ex_row1_def ex_row2_def mk_row_def ID_COLS_def
      detect_month_cols_def value_cols_def melt_def coerce_row_def ex_long_def lrow_def ex_parse_def)

lemma set_to_long:
  assumes "to_long parse df = Inr (df_long, months)"
  shows "set df_long = {long_of parse r t | r t. r \<in> set (rows df) \<and> HDate t \<in> set (columns df)}"
proof (intro set_eqI iffI)
  fix lr
  assume "lr \<in> set df_long"
  then obtain k where k: "k < length df_long" and lr: "lr = df_long ! k"
    by (auto simp: in_set_conv_nth)
  let ?R = "length (rows df)"
  from k have kR: "k < length (value_cols df) * ?R"
    by (simp add: length_to_long [OF assms])
  then have R: "0 < ?R" by (cases "?R = 0") simp_all
  from kR R have i: "k div ?R < length (value_cols df)"
    by (simp add: less_mult_imp_div_less)
  from R have j: "k mod ?R < ?R" by simp
  have "lr = long_of parse (rows df ! (k mod ?R)) (value_cols df ! (k div ?R))"
    using nth_to_long [OF assms i j] lr by simp
  moreover have "rows df ! (k mod ?R) \<in> set (rows df)" using j by simp
  moreover have "HDate (value_cols df ! (k div ?R)) \<in> set (columns df)"
    using nth_mem [OF i] by (simp add: value_cols_def set_date_cols)
  ultimately show "lr \<in> {long_of parse r t | r t. r \<in> set (rows df) \<and> HDate t \<in> set (columns df)}"
    by blast
next
  fix lr
  assume "lr \<in> {long_of parse r t | r t. r \<in> set (rows df) \<and> HDate t \<in> set (columns df)}"
  then obtain r t where lr: "lr = long_of parse r t"
    and r: "r \<in> set (rows df)" and t: "HDate t \<in> set (columns df)"
    by blast
  from r obtain j where j: "j < length (rows df)" and rj: "r = rows df ! j"
    by (auto simp: in_set_conv_nth)
  from t have "t \<in> set (value_cols df)" by (simp add: value_cols_def set_date_cols)
  then obtain i where i: "i < length (value_cols df)" and ti: "t = value_cols df ! i"
    by (auto simp: in_set_conv_nth)
  have "i * length (rows df) + j < length df_long"
    using index_bound [OF i j] by (simp add: length_to_long [OF assms])
  then have "df_long ! (i * length (rows df) + j) \<in> set df_long" by simp
  then show "lr \<in> set df_long"
    using nth_to_long [OF assms i j] lr rj ti by simp
qed




text \<open>
  Claim C2.  The value of the long row of wide row \<open>j\<close> and date column \<open>i\<close> is 0 when
  the cell is blank or a text that does not read as a number, and the number itself
  (negative or not) when the cell is a number or reads as one.  \<open>Value\<close> is a number by
  its type: after \<open>fillna\<close> no entry is missing.
\<close>

theorem value_coercion:
  assumes "to_long parse df = Inr (df_long, months)"
    and "i < length (value_cols df)" and "j < length (rows df)"
  shows "(case amount (rows df ! j) (value_cols df ! i) of
            Blank \<Rightarrow> Value (df_long ! (i * length (rows df) + j)) = 0
          | Num x \<Rightarrow> Value (df_long ! (i * length (rows df) + j)) = x
          | Text s \<Rightarrow>
              (case parse s of
                 None \<Rightarrow> Value (df_long ! (i * length (rows df) + j)) = 0
               | Some x \<Rightarrow> Value (df_long ! (i * length (rows df) + j)) = x))"
  using nth_to_long [OF assms] by (simp split: cell.splits option.splits)

text \<open>
  In the example the text \<open>''abc''\<close> becomes 0 and the number -8 is kept.
\<close>

theorem value_coercion_witness:
  "to_long ex_parse ex_wide = Inr (ex_long, [(2024, 1, 1), (2024, 2, 1)]) \<and>
   amount (rows ex_wide ! 1) (value_cols ex_wide ! 0) = Text ''abc'' \<and>
   ex_parse ''abc'' = None \<and> Value (ex_long ! 1) = 0 \<and>
   amount (rows ex_wide ! 1) (value_cols ex_wide ! 1) = Num (- 8) \<and> Value (ex_long ! 3) = - 8"
proof -
  have v: "value_cols ex_wide = [(2024, 1, 15), (2024, 2, 1)]"
    by (simp add: value_cols_def ex_wide_def)
  have r: "rows ex_wide = [ex_row1, ex_row2]" by (simp add: ex_wide_def)
  have a: "amount ex_row2 (2024, 1, 15) = Text ''abc''" "amount ex_row2 (2024, 2, 1) = Num (- 8)"
    by (simp_all add: ex_row2_def mk_row_def)
  have p: "ex_parse ''abc'' = None" by (simp add: ex_parse_def)
  have "Value (ex_long ! (0 * length (rows ex_wide) + 1)) = 0"
    using value_coercion [OF ex_to_long, of 0 1] by (simp add: v r a p del: One_nat_def)
  moreover have "Value (ex_long ! (1 * length (rows ex_wide) + 1)) = - 8"
    using value_coercion [OF ex_to_long, of 1 1] by (simp add: v r a del: One_nat_def)
  ultimately show ?thesis using ex_to_long by (simp add: v r a p del: One_nat_def)
qed

text \<open>
  Claim C3, as the code has it.  \<open>to_long\<close> is a function of the frame alone, and the
  order of its rows is that of the melt: date column by date column, and within a date
  column the wide rows in their order.  Wide row \<open>j\<close> under date column \<open>i\<close> stands at
  position \<open>i * R + j\<close>.
\<close>

theorem to_long_order:
  assumes "to_long parse df = Inr (df_long, months)"
    and "i < length (value_cols df)" and "j < length (rows df)"
  shows "df_long ! (i * length (rows df) + j) = long_of parse (rows df ! j) (value_cols df ! i)"
  using assms by (rule nth_to_long)

text \<open>
  In the example the second long row is the second wide row under the first date column.
\<close>

theorem to_long_order_witness:
  "to_long ex_parse ex_wide = Inr (ex_long, [(2024, 1, 1), (2024, 2, 1)]) \<and>
   ex_long ! 1 = lrow (Some ''B'') (Some ''J2'') (Some ''Svc2'') (Some ''T1'') (2024, 1, 1) 0 \<and>
   ex_long ! 2 = lrow (Some ''A'') (Some ''J1'') (Some ''Svc1'') (Some ''T1'') (2024, 2, 1) 50"
proof -
  have v: "value_cols ex_wide = [(2024, 1, 15), (2024, 2, 1)]"
    by (simp add: value_cols_def ex_wide_def)
  have r: "rows ex_wide = [ex_row1, ex_row2]" by (simp add: ex_wide_def)
  have "ex_long ! (0 * length (rows ex_wide) + 1) =
      lrow (Some ''B'') (Some ''J2'') (Some ''Svc2'') (Some ''T1'') (2024, 1, 1) 0"
    using to_long_order [OF ex_to_long, of 0 1]
    by (simp add: v r) (simp add: ex_row2_def mk_row_def lrow_def ex_parse_def)
  moreover have "ex_long ! (1 * length (rows ex_wide) + 0) =
      lrow (Some ''A'') (Some ''J1'') (Some ''Svc1'') (Some ''T1'') (2024, 2, 1) 50"
    using to_long_order [OF ex_to_long, of 1 0]
    by (simp add: v r) (simp add: ex_row1_def mk_row_def lrow_def ex_parse_def)
  ultimately show ?thesis using ex_to_long by (simp add: r numeral_2_eq_2)
qed

text \<open>
  Claim C3 as stated fails: on the example frame the long table is not in the row-major
  order of the specification (the second and third rows are exchanged).
\<close>

theorem to_long_not_row_major:
  "long_table (to_long ex_parse ex_wide) \<noteq> Some (row_major_long ex_parse ex_wide)"
proof -
  have "row_major_long ex_parse ex_wide = [ex_long ! 0, ex_long ! 2, ex_long ! 1, ex_long ! 3]"
    by (simp add: row_major_long_def value_cols_def ex_wide_def ex_long_def lrow_def
        ex_row1_def ex_row2_def mk_row_def ex_parse_def)
  then show ?thesis
    by (simp add: ex_to_long ex_long_def lrow_def)
qed

text \<open>
  Claim C4.  A frame that lacks an identifier column makes \<open>to_long\<close> raise the error
  that lists exactly the missing identifier columns, and there is no long table; a frame
  without a date header makes it raise as well (the error about the monthly columns when
  no identifier column is missing); and an error of \<open>to_long\<close> is the result of the whole
  run, so nothing is filtered or aggregated.
\<close>

theorem to_long_schema_errors:
  "((\<exists>c \<in> set ID_COLS. HText c \<notin> set (columns df)) \<longrightarrow>
      (\<exists>missing. to_long parse df = Inl (Missing_required_columns missing (columns df)) \<and>
         set missing = {c \<in> set ID_COLS. HText c \<notin> set (columns df)}) \<and>
      long_table (to_long parse df) = None) \<and>
   ((\<forall>h \<in> set (columns df). \<not> is_date h) \<longrightarrow>
      (\<exists>e. to_long parse df = Inl e) \<and> long_table (to_long parse df) = None \<and>
      ((\<forall>c \<in> set ID_COLS. HText c \<in> set (columns df)) \<longrightarrow>
         to_long parse df = Inl No_monthly_columns)) \<and>
   (\<forall>e. to_long parse (load_excel sheet) = Inl e \<longrightarrow> filtered_table parse sheet ui = Inl e)"
proof (intro conjI impI allI)
  assume m: "\<exists>c \<in> set ID_COLS. HText c \<notin> set (columns df)"
  then have ne: "filter (\<lambda>c. HText c \<notin> set (columns df)) ID_COLS \<noteq> []"
    by (simp add: filter_empty_conv)
  then have eq: "to_long parse df =
      Inl (Missing_required_columns (filter (\<lambda>c. HText c \<notin> set (columns df)) ID_COLS) (columns df))"
    by (simp add: to_long_def)
  then show "\<exists>missing. to_long parse df = Inl (Missing_required_columns missing (columns df)) \<and>
         set missing = {c \<in> set ID_COLS. HText c \<notin> set (columns df)}"
    by auto
  from eq show "long_table (to_long parse df) = None" by simp
next
  assume d: "\<forall>h \<in> set (columns df). \<not> is_date h"
  have nodates: "List.map_filter date_of cols = []" if "\<forall>h \<in> set cols. \<not> is_date h" for cols
    using that by (induction cols) (auto elim: is_date.elims)
  from d have e: "detect_month_cols df = []"
    by (simp add: detect_month_cols_def nodates)
  then show ex: "\<exists>e. to_long parse df = Inl e"
    by (simp add: to_long_def Let_def)
  then show "long_table (to_long parse df) = None" by auto
  show "to_long parse df = Inl No_monthly_columns"
    if "\<forall>c \<in> set ID_COLS. HText c \<in> set (columns df)"
    using that e by (simp add: to_long_def Let_def filter_empty_conv)
next
  fix e
  assume "to_long parse (load_excel sheet) = Inl e"
  then show "filtered_table parse sheet ui = Inl e"
    by (simp add: filtered_table_def)
qed

text \<open>
  The frame without \<open>Job description\<close> and the frame without a date header.
\<close>

theorem to_long_schema_errors_witness:
  "(\<exists>missing. to_long ex_parse ex_no_description =
        Inl (Missing_required_columns missing (columns ex_no_description)) \<and>
      set missing = {''Job description''}) \<and>
   long_table (to_long ex_parse ex_no_description) = None \<and>
   to_long ex_parse (load_excel ex_no_dates) = Inl No_monthly_columns \<and>
   filtered_table ex_parse ex_no_dates ex_ui = Inl No_monthly_columns"
proof -
  have m: "\<exists>c \<in> set ID_COLS. HText c \<notin> set (columns ex_no_description)"
    by (simp add: ID_COLS_def ex_no_description_def)
  have ms: "{c \<in> set ID_COLS. HText c \<notin> set (columns ex_no_description)} = {''Job description''}"
    by (auto simp: ID_COLS_def ex_no_description_def)
  have d: "\<forall>h \<in> set (columns (load_excel ex_no_dates)). \<not> is_date h"
    by (simp add: load_excel_def ex_no_dates_def)
  have i: "\<forall>c \<in> set ID_COLS. HText c \<in> set (columns (load_excel ex_no_dates))"
    by (simp add: ID_COLS_def load_excel_def ex_no_dates_def)
  have 1: "(\<exists>missing. to_long ex_parse ex_no_description =
        Inl (Missing_required_columns missing (columns ex_no_description)) \<and>
      set missing = {''Job description''}) \<and>
    long_table (to_long ex_parse ex_no_description) = None"
    using to_long_schema_errors [of ex_no_description ex_parse] m ms by simp
  have 2: "to_long ex_parse (load_excel ex_no_dates) = Inl No_monthly_columns"
    using to_long_schema_errors [of "load_excel ex_no_dates" ex_parse] d i by blast
  have 3: "filtered_table ex_parse ex_no_dates ex_ui = Inl No_monthly_columns"
    using to_long_schema_errors [of _ ex_parse ex_no_dates ex_ui] 2 by blast
  from 1 2 3 show ?thesis by blast
qed


section \<open>Properties of the filter\<close>

lemma set_map_filter: "set (List.map_filter f xs) = {y. \<exists>x \<in> set xs. f x = Some y}"
  by (induction xs) (auto split: option.splits)

lemma set_sorted_unique: "set (sorted_unique col df) = {k. \<exists>r \<in> set df. col r = Some k}"
  by (simp add: sorted_unique_def set_map_filter)

lemma distinct_sorted_unique: "distinct (sorted_unique col df)"
  by (simp add: sorted_unique_def)

lemma ex_blank_to_long:
  "to_long ex_parse (load_excel ex_blank_sheet) = Inr (ex_blank_long, [(2024, 1, 1), (2024, 2, 1)])"
  by (simp add: to_long_def load_excel_def ex_blank_sheet_def mk_row_def ID_COLS_def
      detect_month_cols_def value_cols_def melt_def coerce_row_def ex_blank_long_def lrow_def
      STR_NA_VALUES_def)

text \<open>
  Claim C5, at a failing input.  The sheet has two months, a row without a client, a row
  whose data type reads as missing and a complete row.  With the whole range of months
  and the three selections cleared, the script keeps the two rows of the complete row
  only, while a filter without restriction, as the specification and the docstring of
  \<^verbatim>\<open>multiselect_all\<close> have it, keeps all six rows.
\<close>

theorem empty_selection_drops_missing:
  "to_long ex_parse (load_excel ex_blank_sheet) = Inr (ex_blank_long, [(2024, 1, 1), (2024, 2, 1)]) \<and>
   picked_types ex_ui = [] \<and> picked_clients ex_ui = [] \<and> picked_services ex_ui = [] \<and>
   filtered_table ex_parse ex_blank_sheet ex_ui = Inr ex_complete_long \<and>
   spec_filter (start_m ex_ui) (end_m ex_ui) (picked_types ex_ui) (picked_clients ex_ui)
     (picked_services ex_ui) ex_blank_long = ex_blank_long"
proof -
  have "dff ex_blank_long ex_ui = ex_complete_long"
    by (simp add: dff_def Let_def multiselect_all_def sorted_unique_def mask_def ex_ui_def
        ex_blank_long_def ex_complete_long_def lrow_def)
  then have "filtered_table ex_parse ex_blank_sheet ex_ui = Inr ex_complete_long"
    by (simp add: filtered_table_def ex_blank_to_long)
  moreover have "spec_filter (start_m ex_ui) (end_m ex_ui) (picked_types ex_ui)
     (picked_clients ex_ui) (picked_services ex_ui) ex_blank_long = ex_blank_long"
    by (simp add: spec_filter_def ex_ui_def ex_blank_long_def lrow_def)
  ultimately show ?thesis
    using ex_blank_to_long by (simp add: ex_ui_def)
qed

lemma na_text_not_nan: "na_text x \<noteq> Some ''nan''"
  by (cases x) (simp_all add: STR_NA_VALUES_def)

lemma loaded_fields:
  assumes "to_long parse (load_excel sheet) = Inr (df_long, months)" and "r \<in> set df_long"
  shows "Client r \<noteq> Some ''nan''" and "Data_type r \<noteq> Some ''nan''"
    and "Job_description r \<noteq> Some ''nan''"
proof -
  from assms obtain w t where "w \<in> set (rows (load_excel sheet))"
    and r: "r = long_of parse w t"
    unfolding set_to_long [OF assms(1)] by blast
  then have "\<forall>c. ident w c \<noteq> Some ''nan''"
    by (auto simp: load_excel_def na_text_not_nan)
  with r show "Client r \<noteq> Some ''nan''" and "Data_type r \<noteq> Some ''nan''"
    and "Job_description r \<noteq> Some ''nan''"
    by simp_all
qed

lemma nan_not_option:
  assumes "\<forall>r \<in> set df_long. col r \<noteq> Some ''nan''"
    and "set picked \<subseteq> set (sorted_unique col df_long)"
  shows "''nan'' \<notin> set (multiselect_all (sorted_unique col df_long) picked)"
  using assms by (auto simp: multiselect_all_def set_sorted_unique)

text \<open>
  Claim C10.  In the long table read from any sheet, a row whose client, data type or
  service is missing is in no filtered table, whatever the widgets return (a choice among
  the options; the cleared choice counts as all options): the options are the values that
  are present, the missing field reads \<open>''nan''\<close>, and \<open>read_excel\<close> has read every text
  \<open>''nan''\<close> as missing.
\<close>

theorem missing_field_row_excluded:
  assumes "to_long parse (load_excel sheet) = Inr (df_long, months)"
    and "r \<in> set df_long"
    and "Client r = None \<or> Data_type r = None \<or> Job_description r = None"
    and "set (picked_types ui) \<subseteq> set (sorted_unique Data_type df_long)"
    and "set (picked_clients ui) \<subseteq> set (sorted_unique Client df_long)"
    and "set (picked_services ui) \<subseteq> set (sorted_unique Job_description df_long)"
  shows "r \<notin> set (dff df_long ui)"
proof -
  note l = loaded_fields [OF assms(1)]
  have "''nan'' \<notin> set (multiselect_all (sorted_unique Data_type df_long) (picked_types ui))"
    by (rule nan_not_option [OF _ assms(4)]) (simp add: l)
  moreover have "''nan'' \<notin> set (multiselect_all (sorted_unique Client df_long) (picked_clients ui))"
    by (rule nan_not_option [OF _ assms(5)]) (simp add: l)
  moreover have "''nan'' \<notin> set (multiselect_all (sorted_unique Job_description df_long) (picked_services ui))"
    by (rule nan_not_option [OF _ assms(6)]) (simp add: l)
  ultimately show ?thesis
    using assms(3) by (auto simp: dff_def Let_def mask_def)
qed

text \<open>
  The two rows of the example with a missing field, under a cleared and under a picked
  selection.
\<close>

theorem missing_field_row_excluded_witness:
  "to_long ex_parse (load_excel ex_blank_sheet) = Inr (ex_blank_long, [(2024, 1, 1), (2024, 2, 1)]) \<and>
   Client (ex_blank_long ! 0) = None \<and> Data_type (ex_blank_long ! 1) = None \<and>
   ex_blank_long ! 0 \<notin> set (dff ex_blank_long ex_ui) \<and>
   ex_blank_long ! 1 \<notin> set (dff ex_blank_long (ex_ui\<lparr>picked_clients := [''B'']\<rparr>))"
proof -
  have o: "sorted_unique Client ex_blank_long = [''B'', ''C'']"
    by (simp add: sorted_unique_def ex_blank_long_def lrow_def)
  have m: "ex_blank_long ! 0 \<in> set ex_blank_long" "ex_blank_long ! 1 \<in> set ex_blank_long"
    by (simp_all add: ex_blank_long_def)
  have n: "Client (ex_blank_long ! 0) = None" "Data_type (ex_blank_long ! 1) = None"
    by (simp_all add: ex_blank_long_def lrow_def)
  have "ex_blank_long ! 0 \<notin> set (dff ex_blank_long ex_ui)"
    by (rule missing_field_row_excluded [OF ex_blank_to_long m(1)])
      (simp_all add: n ex_ui_def)
  moreover have "ex_blank_long ! 1 \<notin> set (dff ex_blank_long (ex_ui\<lparr>picked_clients := [''B'']\<rparr>))"
    by (rule missing_field_row_excluded [OF ex_blank_to_long m(2)])
      (simp_all add: n o ex_ui_def del: One_nat_def)
  ultimately show ?thesis using ex_blank_to_long n by (simp del: One_nat_def)
qed

section \<open>Properties of the aggregation\<close>

section \<open>Properties of the export\<close>

lemma read_plain:
  "COMMA \<notin> set s \<Longrightarrow> LF \<notin> set s \<Longrightarrow> DQUOTE \<notin> set s \<Longrightarrow>
   read_csv Plain f r (s @ rest) = read_csv Plain (rev s @ f) r rest"
  by (induction s arbitrary: f) auto

lemma read_quoted:
  "read_csv Quoted f r (double_quotes s @ DQUOTE # rest) = read_csv Closing (rev s @ f) r rest"
  by (induction s arbitrary: f) auto

lemma chars_distinct: "COMMA \<noteq> LF" "COMMA \<noteq> DQUOTE" "LF \<noteq> DQUOTE"
  by (simp_all add: COMMA_def LF_def DQUOTE_def)

lemma read_field_comma:
  "read_csv Plain [] r (quote_field s @ COMMA # rest) = read_csv Plain [] (s # r) rest"
proof (cases "needs_quote s")
  case True
  then show ?thesis
    using read_quoted [of "[]" r s "COMMA # rest"] chars_distinct
    by (simp add: quote_field_def)
next
  case False
  then show ?thesis
    using read_plain [of s "[]" r "COMMA # rest"]
    by (simp add: quote_field_def needs_quote_def)
qed

lemma read_field_lf:
  "read_csv Plain [] r (quote_field s @ LF # rest) = rev (s # r) # read_csv Plain [] [] rest"
proof (cases "needs_quote s")
  case True
  then show ?thesis
    using read_quoted [of "[]" r s "LF # rest"] chars_distinct
    by (simp add: quote_field_def)
next
  case False
  then show ?thesis
    using read_plain [of s "[]" r "LF # rest"] chars_distinct
    by (simp add: quote_field_def needs_quote_def)
qed

lemma read_line:
  "fs \<noteq> [] \<Longrightarrow>
   read_csv Plain [] r (join_fields (map quote_field fs) @ LF # rest) =
     (rev r @ fs) # read_csv Plain [] [] rest"
proof (induction fs arbitrary: r rule: join_fields.induct)
  case 1
  then show ?case by simp
next
  case (2 f)
  then show ?case by (simp add: read_field_lf)
next
  case (3 f g fs)
  have "read_csv Plain [] (f # r) (join_fields (map quote_field (g # fs)) @ LF # rest) =
      (rev (f # r) @ g # fs) # read_csv Plain [] [] rest"
    by (rule "3.IH") simp
  then show ?case by (simp add: read_field_comma)
qed

lemma read_csv_line:
  "fs \<noteq> [] \<Longrightarrow> read_csv Plain [] [] (csv_line fs @ rest) = fs # read_csv Plain [] [] rest"
  using read_line [of fs "[]" rest] by (simp add: csv_line_def)

lemma read_lines:
  "\<forall>fs \<in> set recs. fs \<noteq> [] \<Longrightarrow> read_csv Plain [] [] (concat (map csv_line recs)) = recs"
  by (induction recs) (simp_all add: read_csv_line)

lemma csv_records_to_csv:
  "csv_records (to_csv repr df) = csv_header # map (row_fields repr) df"
proof -
  have "to_csv repr df = concat (map csv_line (csv_header # map (row_fields repr) df))"
    by (simp add: to_csv_def comp_def)
  moreover have "\<forall>fs \<in> set (csv_header # map (row_fields repr) df). fs \<noteq> []"
    by (auto simp: csv_header_def row_fields_def)
  ultimately show ?thesis
    unfolding csv_records_def by (simp only: read_lines)
qed

lemma lf_quote_field: "LF \<notin> set s \<Longrightarrow> filter (\<lambda>c. c = LF) (quote_field s) = []"
proof -
  assume a: "LF \<notin> set s"
  have "LF \<notin> set (double_quotes s)" if "LF \<notin> set s" for s
    using that chars_distinct by (induction s) auto
  with a show ?thesis
    using chars_distinct by (auto simp: quote_field_def filter_empty_conv)
qed

lemma lf_join_fields:
  "\<forall>f \<in> set fs. LF \<notin> set f \<Longrightarrow> filter (\<lambda>c. c = LF) (join_fields (map quote_field fs)) = []"
  using chars_distinct by (induction fs rule: join_fields.induct) (simp_all add: lf_quote_field)

lemma line_count_csv_line: "\<forall>f \<in> set fs. LF \<notin> set f \<Longrightarrow> line_count (csv_line fs) = 1"
  by (simp add: line_count_def csv_line_def lf_join_fields)

lemma line_count_append: "line_count (a @ b) = line_count a + line_count b"
  by (simp add: line_count_def)

lemma line_count_lines:
  "\<forall>fs \<in> set recs. \<forall>f \<in> set fs. LF \<notin> set f \<Longrightarrow>
   line_count (concat (map csv_line recs)) = length recs"
  by (induction recs) (simp_all add: line_count_append line_count_csv_line, simp add: line_count_def)

text \<open>
  Claim C9, as the code has it.  The export is the byte order mark of UTF-8 followed by a
  comma-separated text whose records are the header and then one record for each row of
  the filtered table, in order, holding exactly the six fields of the row as they are
  written.  When no field holds a line feed, every record is one line: the export has one
  line for the header and exactly one line for each row.
\<close>

theorem export_csv_records:
  "take 3 (export_csv repr df) = BOM \<and>
   csv_records (drop 3 (export_csv repr df)) = csv_header # map (row_fields repr) df \<and>
   ((\<forall>r \<in> set df. \<forall>f \<in> set (row_fields repr r). LF \<notin> set f) \<longrightarrow>
      line_count (export_csv repr df) = 1 + length df)"
proof (intro conjI impI)
  show "take 3 (export_csv repr df) = BOM"
    by (simp add: export_csv_def BOM_def)
  show "csv_records (drop 3 (export_csv repr df)) = csv_header # map (row_fields repr) df"
    by (simp add: export_csv_def BOM_def csv_records_to_csv)
  assume a: "\<forall>r \<in> set df. \<forall>f \<in> set (row_fields repr r). LF \<notin> set f"
  have "to_csv repr df = concat (map csv_line (csv_header # map (row_fields repr) df))"
    by (simp add: to_csv_def comp_def)
  moreover have "\<forall>fs \<in> set (csv_header # map (row_fields repr) df). \<forall>f \<in> set fs. LF \<notin> set f"
    using a by (auto simp: csv_header_def LF_def)
  ultimately have "line_count (to_csv repr df) = length (csv_header # map (row_fields repr) df)"
    by (simp only: line_count_lines)
  moreover have "line_count BOM = 0"
    by (simp add: line_count_def BOM_def LF_def)
  ultimately show "line_count (export_csv repr df) = 1 + length df"
    by (simp add: export_csv_def line_count_append)
qed

text \<open>
  The export of the example table: five lines, five records.
\<close>

theorem export_csv_records_witness:
  "list_all (\<lambda>r. list_all (\<lambda>f. LF \<notin> set f) (row_fields ex_repr r)) ex_long \<and>
   line_count (export_csv ex_repr ex_long) = 5 \<and>
   csv_records (drop 3 (export_csv ex_repr ex_long)) =
     [[''Client'', ''Job'', ''Job description'', ''Data type'', ''Month'', ''Value''],
      [''A'', ''J1'', ''Svc1'', ''T1'', ''2024-01-01'', ''100.0''],
      [''B'', ''J2'', ''Svc2'', ''T1'', ''2024-01-01'', ''0.0''],
      [''A'', ''J1'', ''Svc1'', ''T1'', ''2024-02-01'', ''50.0''],
      [''B'', ''J2'', ''Svc2'', ''T1'', ''2024-02-01'', ''-8.0'']]"
proof -
  have f: "map (row_fields ex_repr) ex_long =
     [[''A'', ''J1'', ''Svc1'', ''T1'', ''2024-01-01'', ''100.0''],
      [''B'', ''J2'', ''Svc2'', ''T1'', ''2024-01-01'', ''0.0''],
      [''A'', ''J1'', ''Svc1'', ''T1'', ''2024-02-01'', ''50.0''],
      [''B'', ''J2'', ''Svc2'', ''T1'', ''2024-02-01'', ''-8.0'']]"
    by (simp add: row_fields_def ex_long_def lrow_def ex_repr_def digit_def)
  have "list_all (\<lambda>fs. list_all (\<lambda>f. LF \<notin> set f) fs) (map (row_fields ex_repr) ex_long)"
    unfolding f by (simp add: LF_def)
  then have a: "list_all (\<lambda>r. list_all (\<lambda>f. LF \<notin> set f) (row_fields ex_repr r)) ex_long"
    by (simp add: list_all_iff)
  then have h: "\<forall>r \<in> set ex_long. \<forall>f \<in> set (row_fields ex_repr r). LF \<notin> set f"
    by (simp add: list_all_iff)
  have l: "length ex_long = 4" by (simp add: ex_long_def)
  note t = export_csv_records [of ex_repr ex_long]
  from t h l have 1: "line_count (export_csv ex_repr ex_long) = 5" by simp
  from t have "csv_records (drop 3 (export_csv ex_repr ex_long)) =
      csv_header # map (row_fields ex_repr) ex_long" by blast
  then have 2: "csv_records (drop 3 (export_csv ex_repr ex_long)) =
     [[''Client'', ''Job'', ''Job description'', ''Data type'', ''Month'', ''Value''],
      [''A'', ''J1'', ''Svc1'', ''T1'', ''2024-01-01'', ''100.0''],
      [''B'', ''J2'', ''Svc2'', ''T1'', ''2024-01-01'', ''0.0''],
      [''A'', ''J1'', ''Svc1'', ''T1'', ''2024-02-01'', ''50.0''],
      [''B'', ''J2'', ''Svc2'', ''T1'', ''2024-02-01'', ''-8.0'']]"
    by (simp only: f csv_header_def)
  from a 1 2 show ?thesis by (intro conjI)
qed

text \<open>
  Claim C9 as stated fails on a table of one row whose service holds a line break: the
  field is quoted and keeps its line feed, so the export has three lines, not two.
\<close>

theorem export_csv_line_break:
  "length ex_two_lines = 1 \<and> line_count (export_csv ex_repr ex_two_lines) = 3"
  by (simp add: ex_two_lines_def lrow_def export_csv_def to_csv_def csv_line_def row_fields_def
      quote_field_def needs_quote_def csv_header_def BOM_def line_count_def ex_repr_def digit_def
      COMMA_def DQUOTE_def LF_def)

end
